theory Spec2Isabelle
  imports Complex_Main "HOL-Library.Sublist"
begin

section \<open>Numbers of the host language\<close>

text \<open>
  The scoring code computes on JavaScript numbers. A finite number is modelled by the
  rational it denotes (\<open>Num\<close>); \<open>NaN\<close> stands for both \<open>NaN\<close> and \<open>undefined\<close>, which
  behave alike in every position the code uses them: arithmetic yields \<open>NaN\<close>,
  \<open>Number.isFinite\<close> is false, every comparison is false. Infinities and the rounding
  error of binary floating point are outside this model.
\<close>

datatype jsnum = Num rat | NaN

fun js_times :: "jsnum \<Rightarrow> jsnum \<Rightarrow> jsnum" where
  "js_times (Num x) (Num y) = Num (x * y)"
| "js_times a b = NaN"

fun js_minus :: "jsnum \<Rightarrow> jsnum \<Rightarrow> jsnum" where
  "js_minus (Num x) (Num y) = Num (x - y)"
| "js_minus a b = NaN"

text \<open>Division by a non-zero literal, the only division the scoring code performs.\<close>

fun js_over :: "jsnum \<Rightarrow> rat \<Rightarrow> jsnum" where
  "js_over (Num x) d = Num (x / d)"
| "js_over NaN d = NaN"

fun js_gt :: "jsnum \<Rightarrow> rat \<Rightarrow> bool" where
  "js_gt (Num x) c = (x > c)"
| "js_gt NaN c = False"

fun js_lt :: "jsnum \<Rightarrow> rat \<Rightarrow> bool" where
  "js_lt (Num x) c = (x < c)"
| "js_lt NaN c = False"

text \<open>\<open>Math.round\<close>: the nearest integer, a tie going towards plus infinity.\<close>

fun Math_round :: "jsnum \<Rightarrow> jsnum" where
  "Math_round (Num x) = Num (of_int \<lfloor>x + 1 / 2\<rfloor>)"
| "Math_round NaN = NaN"

text \<open>\<open>Math.max(0, v)\<close>.\<close>

fun Math_max0 :: "jsnum \<Rightarrow> jsnum" where
  "Math_max0 (Num x) = Num (max 0 x)"
| "Math_max0 NaN = NaN"

text \<open>
  \<open>x.toFixed(d)\<close> read back as a number (\<open>parseFloat\<close>, \<open>Number\<close>): \<open>x\<close> rounded to
  \<open>d\<close> decimals, a tie going away from zero.
\<close>

definition toFixed_num :: "nat \<Rightarrow> rat \<Rightarrow> rat" where
  "toFixed_num d x =
     (if x < 0 then - (of_int \<lfloor>(- x) * 10 ^ d + 1 / 2\<rfloor> / 10 ^ d)
      else of_int \<lfloor>x * 10 ^ d + 1 / 2\<rfloor> / 10 ^ d)"

text \<open>
  \<open>safeNumber(v, fallback)\<close>: \<open>v\<close> when \<open>Number.isFinite(v)\<close>, the fallback otherwise.
  The fallback is a number at one call site and the text \<open>N/A\<close> at the others, so the
  result is a sum.
\<close>

fun safeNumber :: "jsnum \<Rightarrow> 'a \<Rightarrow> rat + 'a" where
  "safeNumber (Num x) fallback = Inl x"
| "safeNumber NaN fallback = Inr fallback"

section \<open>Data model\<close>

text \<open>
  Modelled from the spec: the shape of the unified metrics returned by \<open>parseK6Data\<close>
  (\<open>Utils/Loaddata.js\<close> is not among the sources). The fields are the ones the route
  reads; \<open>latency\<close> is optional because the route reads it through \<open>latency?.avg\<close> and
  \<open>latency?.p95\<close>.
\<close>

record latency_t =
  avg :: jsnum
  p95 :: jsnum

record metrics =
  latency :: "latency_t option"
  throughput :: jsnum
  failureRateUnderTest :: jsnum
  serverErrorRate :: jsnum
  vus :: jsnum

text \<open>
  Modelled from the spec: the shape of the repository signals returned by
  \<open>analyzeGithubRepo\<close> (\<open>Utils/githubAnalyzer.js\<close> is not among the sources). The
  \<open>summary\<close> block is optional because the route tests it; the three fields below are
  the ones the route writes into it.
\<close>

record signal =
  present :: bool

record summary_t =
  devOpsScore :: nat
  productionReady :: bool
  riskLevel :: string

record repo =
  docker :: signal
  cicd :: signal
  kubernetes :: signal
  hasStartScript :: bool
  summary :: "summary_t option"

text \<open>
  The four remediation texts the route can push, in the order of the source:
  \<^item> \<open>CdnEdgeCaching\<close>: "Enable CDN Edge Caching ... -600ms p95 latency";
  \<^item> \<open>RedisCaching\<close>: "Implement Redis Caching ... +40% throughput throughput capacity";
  \<^item> \<open>AutoScale\<close>: "Auto-Scale Infrastructure ... Neutralize service disruptions";
  \<^item> \<open>CicdPipeline\<close>: "Setup CI/CD Pipeline ... Reduce 3x outage risk during peak traffic".
  The texts contain characters outside ASCII, so each is named by a constructor.
\<close>

datatype remediation = CdnEdgeCaching | RedisCaching | AutoScale | CicdPipeline

record businessMetrics_t =
  conversionLoss :: jsnum
  adSpendRisk :: jsnum
  stabilityRiskScore :: jsnum
  remediations :: "remediation list"
  collapsePoint :: jsnum

section \<open>Repository summary\<close>

text \<open>
  The block \<open>if (github && github.summary) { ... }\<close> of the route: three assignments
  into \<open>github.summary\<close>, the third reading back the score the first one stored.
\<close>

definition score_of :: "bool \<Rightarrow> nat \<Rightarrow> nat" where
  "score_of b n = (if b then n else 0)"

definition set_devOpsScore :: "repo \<Rightarrow> summary_t \<Rightarrow> summary_t" where
  "set_devOpsScore g s =
     s\<lparr>devOpsScore :=
         score_of (present (docker g)) 30 + score_of (present (cicd g)) 30
         + score_of (present (kubernetes g)) 20 + score_of (hasStartScript g) 20\<rparr>"

definition set_productionReady :: "repo \<Rightarrow> summary_t \<Rightarrow> summary_t" where
  "set_productionReady g s =
     s\<lparr>productionReady := hasStartScript g \<and> present (docker g) \<and> present (cicd g)\<rparr>"

definition set_riskLevel :: "summary_t \<Rightarrow> summary_t" where
  "set_riskLevel s =
     s\<lparr>riskLevel :=
         (if devOpsScore s \<ge> 70 then ''low''
          else if devOpsScore s \<ge> 40 then ''medium''
          else ''high'')\<rparr>"

definition scored_summary :: "repo \<Rightarrow> summary_t \<Rightarrow> summary_t" where
  "scored_summary g s = set_riskLevel (set_productionReady g (set_devOpsScore g s))"

definition github_summary :: "repo option \<Rightarrow> repo option" where
  "github_summary github =
     (case github of
        None \<Rightarrow> None
      | Some g \<Rightarrow>
          (case summary g of
             None \<Rightarrow> Some g
           | Some s \<Rightarrow> Some (g\<lparr>summary := Some (scored_summary g s)\<rparr>)))"

section \<open>Derived scores\<close>

text \<open>\<open>metrics.latency?.avg\<close> and \<open>metrics.latency?.p95\<close>.\<close>

definition latency_avg :: "metrics \<Rightarrow> jsnum" where
  "latency_avg m = (case latency m of None \<Rightarrow> NaN | Some l \<Rightarrow> avg l)"

definition latency_p95 :: "metrics \<Rightarrow> jsnum" where
  "latency_p95 m = (case latency m of None \<Rightarrow> NaN | Some l \<Rightarrow> p95 l)"

definition initial_businessMetrics :: businessMetrics_t where
  "initial_businessMetrics =
     \<lparr>conversionLoss = Num 0, adSpendRisk = Num 0, stabilityRiskScore = Num 0,
      remediations = [], collapsePoint = Num 0\<rparr>"

text \<open>\<open>if (cond) businessMetrics.remediations.push(item)\<close>.\<close>

definition push_if :: "bool \<Rightarrow> remediation \<Rightarrow> businessMetrics_t \<Rightarrow> businessMetrics_t" where
  "push_if c r b = (if c then b\<lparr>remediations := remediations b @ [r]\<rparr> else b)"

text \<open>The body of \<open>if (metrics) { ... }\<close>, one assignment after the other.\<close>

definition from_metrics :: "metrics \<Rightarrow> businessMetrics_t \<Rightarrow> businessMetrics_t" where
  "from_metrics m b0 =
     (let b1 = b0\<lparr>conversionLoss :=
                    Num (toFixed_num 1
                      ((case safeNumber (latency_avg m) 0 of Inl x \<Rightarrow> x | Inr d \<Rightarrow> d)
                         / 1000 * 7))\<rparr>;
          b2 = b1\<lparr>adSpendRisk :=
                    Math_round
                      (js_times (js_times (js_times (failureRateUnderTest m) (throughput m))
                         (Num 150)) (Num 5))\<rparr>;
          b3 = b2\<lparr>stabilityRiskScore :=
                    Math_max0
                      (js_minus
                         (js_minus (Num 100) (js_times (failureRateUnderTest m) (Num 500)))
                         (js_over (latency_p95 m) 20))\<rparr>;
          b4 = b3\<lparr>collapsePoint :=
                    Math_round
                      (js_times (vus m)
                         (if js_gt (failureRateUnderTest m) (5 / 100)
                          then Num (9 / 10) else Num (3 / 2)))\<rparr>;
          b5 = push_if (js_gt (latency_p95 m) 500) CdnEdgeCaching b4;
          b6 = push_if (js_lt (throughput m) 100) RedisCaching b5;
          b7 = push_if (js_gt (serverErrorRate m) 0) AutoScale b6
      in b7)"

text \<open>
  The whole derived-score block of the route: the initial object, the metrics branch,
  then \<open>if (githubResult && !githubResult.cicd?.present) push(...)\<close>.
\<close>

definition businessMetrics :: "metrics option \<Rightarrow> repo option \<Rightarrow> businessMetrics_t" where
  "businessMetrics ms githubResult =
     (let b = (case ms of None \<Rightarrow> initial_businessMetrics
               | Some m \<Rightarrow> from_metrics m initial_businessMetrics)
      in case githubResult of
           None \<Rightarrow> b
         | Some g \<Rightarrow> push_if (\<not> present (cicd g)) CicdPipeline b)"

section \<open>Texts\<close>

text \<open>
  A string is the list of its characters. \<open>trim\<close> removes the ASCII white space at
  both ends (the host's \<open>String.prototype.trim\<close> also removes the white space outside
  ASCII, which the texts built here do not contain).
\<close>

definition is_space :: "char \<Rightarrow> bool" where
  "is_space c = (c \<in> set [CHR '' '', CHR 0x09, CHR 0x0A, CHR 0x0B, CHR 0x0C, CHR 0x0D])"

definition trim :: "string \<Rightarrow> string" where
  "trim s = rev (dropWhile is_space (rev (dropWhile is_space s)))"

text \<open>A natural number in a template literal: its decimal digits.\<close>

definition digit_char :: "nat \<Rightarrow> char" where
  "digit_char d = ''0123456789'' ! d"

function show_nat :: "nat \<Rightarrow> string" where
  "show_nat n =
     (if n < 10 then [digit_char n] else show_nat (n div 10) @ [digit_char (n mod 10)])"
  by pat_completeness auto
termination
  by (relation "measure id") auto

declare show_nat.simps [simp del]

text \<open>
  What the host prints for a number is a matter of binary floating point, so the three
  printing functions the route relies on are parameters: a number inside a template
  literal, \<open>x.toFixed(2)\<close>, and \<open>JSON.stringify(metrics, null, 2)\<close>.
\<close>

record host =
  num_text :: "rat \<Rightarrow> string"
  fixed2_text :: "rat \<Rightarrow> string"
  stringify_metrics :: "metrics \<Rightarrow> string"

text \<open>A value that is truthy when it is a non-empty text (\<open>None\<close>: \<open>undefined\<close> or \<open>null\<close>).\<close>

fun truthy :: "string option \<Rightarrow> bool" where
  "truthy None = False"
| "truthy (Some s) = (s \<noteq> [])"

text \<open>\<open>a || b\<close> inside a template literal.\<close>

definition or_text :: "string option \<Rightarrow> string option \<Rightarrow> string" where
  "or_text a b =
     (if truthy a then (case a of Some s \<Rightarrow> s | None \<Rightarrow> [])
      else (case b of Some s \<Rightarrow> s | None \<Rightarrow> ''undefined''))"

section \<open>Browser audit objects\<close>

text \<open>
  The browser probe returns a plain object whose values are numbers: a list of fields in
  the order of the object literal. Reading a field that is not there gives \<open>undefined\<close>
  (\<open>None\<close>).
\<close>

type_synonym js_object = "(string \<times> rat) list"

definition field :: "js_object \<Rightarrow> string \<Rightarrow> rat option" where
  "field obj k = map_of obj k"

definition field_text :: "host \<Rightarrow> js_object \<Rightarrow> string \<Rightarrow> string" where
  "field_text h obj k = (case field obj k of None \<Rightarrow> ''undefined'' | Some x \<Rightarrow> num_text h x)"

text \<open>\<open>if (obj.k)\<close>: the field is there and is not zero.\<close>

definition field_truthy :: "js_object \<Rightarrow> string \<Rightarrow> bool" where
  "field_truthy obj k = (case field obj k of None \<Rightarrow> False | Some x \<Rightarrow> x \<noteq> 0)"

section \<open>The textual context\<close>

definition safePercent :: "host \<Rightarrow> jsnum \<Rightarrow> string" where
  "safePercent h v = (case v of Num x \<Rightarrow> fixed2_text h (x * 100) | NaN \<Rightarrow> ''0.00'')"

definition safeNumber_text :: "host \<Rightarrow> jsnum \<Rightarrow> string" where
  "safeNumber_text h v = (case safeNumber v ''N/A'' of Inl x \<Rightarrow> num_text h x | Inr t \<Rightarrow> t)"

text \<open>Each block appends its lines to the context built so far, as \<open>context += ...\<close> does.\<close>

definition metrics_block :: "host \<Rightarrow> metrics \<Rightarrow> string \<Rightarrow> string" where
  "metrics_block h m c0 =
     (let c1 = c0 @ ''Runtime Metrics (Observed):\<newline>'';
          c2 = c1 @ ''- Failure Rate: '' @ safePercent h (failureRateUnderTest m) @ ''%\<newline>'';
          c3 = c2 @ ''- p95 Latency: '' @ safeNumber_text h (latency_p95 m) @ '' ms\<newline>'';
          c4 = c3 @ ''- Avg Latency: '' @ safeNumber_text h (latency_avg m) @ '' ms\<newline>'';
          c5 = c4 @ ''- Throughput: '' @ safeNumber_text h (throughput m) @ '' req/s\<newline>'';
          c6 = c5 @ ''- Server Error Rate (5xx): '' @ safePercent h (serverErrorRate m)
                  @ ''%\<newline>\<newline>''
      in c6)"

definition detected :: "bool \<Rightarrow> string" where
  "detected b = (if b then ''Detected'' else ''Not detected'')"

definition repo_block :: "repo \<Rightarrow> string \<Rightarrow> string" where
  "repo_block g c0 =
     (let c1 = c0 @ ''Repository Signals (Static):\<newline>'';
          c2 = c1 @ ''- Docker: '' @ detected (present (docker g)) @ ''\<newline>'';
          c3 = c2 @ ''- CI/CD: '' @ detected (present (cicd g)) @ ''\<newline>'';
          c4 = c3 @ ''- Kubernetes: '' @ detected (present (kubernetes g)) @ ''\<newline>\<newline>''
      in c4)"

definition browser_block :: "host \<Rightarrow> js_object \<Rightarrow> string \<Rightarrow> string" where
  "browser_block h a c0 =
     (let c1 = c0 @ ''Browser Experience Audit (External):\<newline>'';
          c2 = c1 @ ''- Performance Score: '' @ field_text h a ''performance'' @ ''/100\<newline>'';
          c3 = c2 @ ''- Accessibility Score: '' @ field_text h a ''accessibility''
                  @ ''/100\<newline>'';
          c4 = c3 @ ''- Best Practices Score: '' @ field_text h a ''bestPractices''
                  @ ''/100\<newline>'';
          c5 = c4 @ ''- SEO Score: '' @ field_text h a ''seo'' @ ''/100\<newline>'';
          c6 = c5 @ ''- Interactivity Score: '' @ field_text h a ''interactivity''
                  @ ''/100\<newline>'';
          c7 = (if field_truthy a ''loadTimeMs''
                then c6 @ ''- Real Browser Load Time: '' @ field_text h a ''loadTimeMs''
                        @ '' ms\<newline>''
                else c6);
          c8 = c7 @ ''\<newline>''
      in c8)"

text \<open>
  The whole context. The repository block is written when \<open>githubResult?.summary\<close>
  holds, the line \<open>no_repository_line\<close> otherwise.
\<close>

definition no_repository_line :: string where
  "no_repository_line =
     ''Repository Signals: Not available (no repository provided)\<newline>\<newline>''"

definition build_context ::
  "host \<Rightarrow> string option \<Rightarrow> string option \<Rightarrow> metrics option \<Rightarrow> repo option
     \<Rightarrow> js_object option \<Rightarrow> string" where
  "build_context h testURL githubRepo ms githubResult playwrightResult =
     (let c0 = ''Target under test: '' @ or_text testURL githubRepo @ ''\<newline>\<newline>'';
          c1 = (case ms of None \<Rightarrow> c0 | Some m \<Rightarrow> metrics_block h m c0);
          c2 = (case githubResult of
                  None \<Rightarrow> c1 @ no_repository_line
                | Some g \<Rightarrow>
                    (case summary g of
                       None \<Rightarrow> c1 @ no_repository_line
                     | Some s \<Rightarrow> repo_block g c1));
          c3 = (case playwrightResult of None \<Rightarrow> c2 | Some a \<Rightarrow> browser_block h a c2)
      in c3)"

section \<open>The narrative step\<close>

datatype js_error = Error string

fun error_message :: "js_error \<Rightarrow> string" where
  "error_message (Error m) = m"

record chat_message =
  role :: string
  content :: string

record ai_response =
  message :: string

text \<open>
  The two fixed instruction texts of the prompt contain characters outside ASCII and
  play no part in what is proved; they are parameters. \<open>system_text\<close> is the system
  message after its \<open>trim\<close>, \<open>format_text\<close> the part of the user message that follows
  the context, from "Generate" to "Not evaluated".
\<close>

record prompt =
  system_text :: string
  format_text :: string

definition safeContext :: "host \<Rightarrow> string \<Rightarrow> metrics \<Rightarrow> string" where
  "safeContext h ctx m =
     (if length (trim ctx) > 0 then take 6000 ctx
      else ''Runtime Metrics:\<newline>'' @ stringify_metrics h m)"

definition build_messages :: "host \<Rightarrow> prompt \<Rightarrow> string \<Rightarrow> metrics \<Rightarrow> chat_message list" where
  "build_messages h pr ctx m =
     [\<lparr>role = ''system'', content = system_text pr\<rparr>,
      \<lparr>role = ''user'',
       content = trim (''\<newline>'' @ safeContext h ctx m @ ''\<newline>\<newline>'' @ format_text pr
                         @ ''\<newline>        '')\<rparr>]"

text \<open>
  \<open>runLiveAuditAI\<close>. The narrative collaborator either throws (\<open>Inl\<close>) or answers; an
  answer that is not a text is \<open>None\<close>.
\<close>

definition runLiveAuditAI ::
  "host \<Rightarrow> prompt \<Rightarrow> metrics option \<Rightarrow> string
     \<Rightarrow> (chat_message list \<Rightarrow> js_error + string option) \<Rightarrow> ai_response" where
  "runLiveAuditAI h pr ms ctx getresponseopenrouter =
     (case ms of
        None \<Rightarrow>
          \<lparr>message =
             ''Load Test Failed: No runtime metrics were collected. The target may be unreachable.''\<rparr>
      | Some m \<Rightarrow>
          (case getresponseopenrouter (build_messages h pr ctx m) of
             Inl err \<Rightarrow> \<lparr>message = ''SynthMind AI could not generate the live audit.''\<rparr>
           | Inr response \<Rightarrow>
               \<lparr>message =
                  (case response of
                     None \<Rightarrow> ''**SynthMind AI Verdict**\<newline>\<newline>Analysis completed. Refer to metrics.''
                   | Some r \<Rightarrow>
                       if length (trim r) > 0 then trim r
                       else ''**SynthMind AI Verdict**\<newline>\<newline>Analysis completed. Refer to metrics.'')\<rparr>))"

section \<open>The orchestrating route\<close>

text \<open>The body of a request: the two fields the route reads, and every other field.\<close>

record request =
  testURL :: "string option"
  githubRepo :: "string option"
  other_fields :: "(string \<times> string) list"

text \<open>What \<open>JSON.parse\<close> returns, and its truthiness.\<close>

datatype json =
  JNull | JBool bool | JNum rat | JStr string | JArr "json list" | JObj "(string \<times> json) list"

fun json_truthy :: "json \<Rightarrow> bool" where
  "json_truthy JNull = False"
| "json_truthy (JBool b) = b"
| "json_truthy (JNum x) = (x \<noteq> 0)"
| "json_truthy (JStr s) = (s \<noteq> [])"
| "json_truthy (JArr xs) = True"
| "json_truthy (JObj kvs) = True"

text \<open>
  The options object of the load probe, a field being \<open>None\<close> when it is not given.
  The metrics have a field \<open>vus\<close> of their own, hence the prefix.
\<close>

record k6_options =
  opt_vus :: "nat option"
  opt_duration :: "string option"

text \<open>The chart data is whatever \<open>buildChartResponse\<close> returns; the route only stores it.\<close>

type_synonym charts = json

text \<open>
  What the route calls and does not define. Each probe is given by the settled outcome
  of its promise: rejected (\<open>Inl\<close>) or resolved (\<open>Inr\<close>). \<open>parseK6Data\<close> and
  \<open>buildChartResponse\<close> (\<open>Utils/Loaddata.js\<close>, not among the sources) are taken as
  functions that return.
\<close>

record collaborators =
  call_runK6Test :: "string \<Rightarrow> k6_options option \<Rightarrow> js_error + json"
  call_analyzeGithubRepo :: "string \<Rightarrow> js_error + repo"
  call_runPlaywrightAudit :: "string \<Rightarrow> js_error + js_object"
  parseK6Data :: "json \<Rightarrow> metrics"
  buildChartResponse :: "metrics \<Rightarrow> charts"
  getresponseopenrouter :: "chat_message list \<Rightarrow> js_error + string option"

text \<open>\<open>promise.catch(e => { console.error(...); return null; })\<close>.\<close>

definition catch_null :: "js_error + 'a \<Rightarrow> 'a option" where
  "catch_null p = (case p of Inl e \<Rightarrow> None | Inr v \<Rightarrow> Some v)"

definition text_of :: "string option \<Rightarrow> string" where
  "text_of a = (case a of None \<Rightarrow> [] | Some s \<Rightarrow> s)"

text \<open>
  The first element of the \<open>Promise.all\<close> array: the arguments of the call
  \<open>runK6Test(testURL, { vus: 200, duration: "5s" })\<close>, when the call is made.
\<close>

definition load_probe_call :: "request \<Rightarrow> (string \<times> k6_options option) option" where
  "load_probe_call req =
     (if truthy (testURL req)
      then Some (text_of (testURL req), Some \<lparr>opt_vus = Some 200, opt_duration = Some ''5s''\<rparr>)
      else None)"

definition fan_out ::
  "collaborators \<Rightarrow> request \<Rightarrow> json option \<times> repo option \<times> js_object option" where
  "fan_out w req =
     ((case load_probe_call req of
         None \<Rightarrow> None
       | Some (url, options) \<Rightarrow> catch_null (call_runK6Test w url options)),
      (if truthy (githubRepo req)
       then catch_null (call_analyzeGithubRepo w (text_of (githubRepo req)))
       else None),
      (if truthy (testURL req)
       then catch_null (call_runPlaywrightAudit w (text_of (testURL req)))
       else None))"

text \<open>
  The values the route holds when the narrative step has returned, before it stores the
  session and answers. \<open>github\<close> and \<open>githubResult\<close> are one object in the source, so
  the later reads of \<open>githubResult\<close> see the summary that was written.
\<close>

record orchestration =
  res_metrics :: "metrics option"
  res_charts :: "charts option"
  res_github :: "repo option"
  res_browserMetrics :: "js_object option"
  res_ai :: ai_response
  res_businessInsights :: businessMetrics_t

datatype http_error = BadRequest string

definition orchestrate ::
  "host \<Rightarrow> prompt \<Rightarrow> collaborators \<Rightarrow> request \<Rightarrow> http_error + orchestration" where
  "orchestrate h pr w req =
     (if \<not> truthy (testURL req) \<and> \<not> truthy (githubRepo req)
      then Inl (BadRequest ''Provide testURL or githubRepo'')
      else
        (case fan_out w req of
           (testResult, githubResult, playwrightResult) \<Rightarrow>
             (let ms = (case testResult of
                          None \<Rightarrow> None
                        | Some raw \<Rightarrow>
                            if json_truthy raw then Some (parseK6Data w raw) else None);
                  chart_data = (case ms of None \<Rightarrow> None
                                | Some m \<Rightarrow> Some (buildChartResponse w m));
                  github = github_summary githubResult;
                  ctx = build_context h (testURL req) (githubRepo req) ms github
                          playwrightResult;
                  business = businessMetrics ms github;
                  aiResponse = runLiveAuditAI h pr ms ctx (getresponseopenrouter w)
              in Inr \<lparr>res_metrics = ms, res_charts = chart_data, res_github = github,
                      res_browserMetrics = playwrightResult, res_ai = aiResponse,
                      res_businessInsights = business\<rparr>)))"

section \<open>The load probe adapter\<close>

text \<open>
  The host's \<open>child_process.exec\<close>, as its documentation describes it. A process runs
  for \<open>lifetime\<close> milliseconds (\<open>None\<close>: it does not exit by itself), writes
  \<open>stdout_text\<close> and exits with \<open>exit_code\<close>. \<open>exec\<close> calls back with an error
  when the output exceeds \<open>maxBuffer\<close>, when a positive \<open>timeout\<close> elapses first, or
  when the exit code is not zero; with no timeout and a process that does not exit it
  never calls back (\<open>None\<close>).
\<close>

record process =
  lifetime :: "nat option"
  exit_code :: nat
  stdout_text :: string

record exec_options =
  maxBuffer :: nat
  timeout :: "nat option"

definition time_limit :: "exec_options \<Rightarrow> nat option" where
  "time_limit opts = (case timeout opts of None \<Rightarrow> None | Some t \<Rightarrow> if t = 0 then None else Some t)"

definition exec :: "exec_options \<Rightarrow> process \<Rightarrow> (js_error + string) option" where
  "exec opts p =
     (if length (stdout_text p) > maxBuffer opts
      then Some (Inl (Error ''stdout maxBuffer length exceeded''))
      else
        (case lifetime p of
           None \<Rightarrow>
             (case time_limit opts of
                None \<Rightarrow> None
              | Some t \<Rightarrow> Some (Inl (Error ''Command failed: timed out'')))
         | Some ms \<Rightarrow>
             (case time_limit opts of
                None \<Rightarrow>
                  if exit_code p \<noteq> 0 then Some (Inl (Error ''Command failed''))
                  else Some (Inr (stdout_text p))
              | Some t \<Rightarrow>
                  if t < ms then Some (Inl (Error ''Command failed: timed out''))
                  else if exit_code p \<noteq> 0 then Some (Inl (Error ''Command failed''))
                  else Some (Inr (stdout_text p)))))"

text \<open>
  What the adapter reads from its host: \<open>os.tmpdir()\<close>, \<open>process.cwd()\<close>,
  \<open>Date.now()\<close>, the process a command line starts, the three file operations on the
  result file and \<open>JSON.parse\<close>.
\<close>

record k6_env =
  tmpdir :: string
  cwd :: string
  now :: nat
  spawn :: "string \<Rightarrow> process"
  existsSync :: "string \<Rightarrow> bool"
  readFileSync :: "string \<Rightarrow> js_error + string"
  unlinkSync :: "string \<Rightarrow> js_error + unit"
  JSON_parse :: "string \<Rightarrow> js_error + json"

text \<open>The parameter \<open>{ vus = 100, duration = "30s" } = {}\<close>.\<close>

definition vus_of :: "k6_options option \<Rightarrow> nat" where
  "vus_of options =
     (case options of None \<Rightarrow> 100
      | Some opts \<Rightarrow> (case opt_vus opts of None \<Rightarrow> 100 | Some v \<Rightarrow> v))"

definition duration_of :: "k6_options option \<Rightarrow> string" where
  "duration_of options =
     (case options of None \<Rightarrow> ''30s''
      | Some opts \<Rightarrow> (case opt_duration opts of None \<Rightarrow> ''30s'' | Some d \<Rightarrow> d))"

text \<open>\<open>path.join(tempDir, `k6-result-${Date.now()}.json`)\<close>.\<close>

definition resultFile :: "k6_env \<Rightarrow> string" where
  "resultFile env = tmpdir env @ ''/'' @ ''k6-result-'' @ show_nat (now env) @ ''.json''"

definition scriptPath :: "k6_env \<Rightarrow> string" where
  "scriptPath env = cwd env @ ''/'' @ ''loadtester/k6/test.js''"

definition k6_cmd :: "k6_env \<Rightarrow> string \<Rightarrow> k6_options option \<Rightarrow> string" where
  \<open>k6_cmd env url options =
     ''k6 run --summary-export="'' @ resultFile env @ ''" --env TARGET_URL="'' @ url
       @ ''" --env VUS="'' @ show_nat (vus_of options) @ ''" --env DURATION="''
       @ duration_of options @ ''" "'' @ scriptPath env @ ''"''\<close>

text \<open>The options of the second \<open>exec\<close>; the first one is called with none.\<close>

definition run_options :: exec_options where
  "run_options = \<lparr>maxBuffer = 1024 * 1024 * 10, timeout = None\<rparr>"

definition default_options :: exec_options where
  "default_options = \<lparr>maxBuffer = 1024 * 1024, timeout = None\<rparr>"

text \<open>What happens once the load run has called back without an error.\<close>

definition read_result :: "k6_env \<Rightarrow> js_error + json" where
  "read_result env =
     (if \<not> existsSync env (resultFile env)
      then Inl (Error ''K6 output file not found. The test may have crashed without output.'')
      else
        (case readFileSync env (resultFile env) of
           Inl err \<Rightarrow> Inl (Error (''Failed to read k6 output: '' @ error_message err))
         | Inr rawData \<Rightarrow>
             (case unlinkSync env (resultFile env) of
                Inl err \<Rightarrow> Inl (Error (''Failed to read k6 output: '' @ error_message err))
              | Inr u \<Rightarrow>
                  (case JSON_parse env rawData of
                     Inl err \<Rightarrow> Inl (Error (''Failed to read k6 output: '' @ error_message err))
                   | Inr parsed \<Rightarrow> Inr parsed))))"

text \<open>
  \<open>runK6Test\<close>: the promise is rejected (\<open>Some (Inl e)\<close>), resolved (\<open>Some (Inr v)\<close>)
  or never settled (\<open>None\<close>). The outer \<open>try\<close> only guards the synchronous
  preparation of the paths and of the command line, which does not throw here.
\<close>

definition runK6Test :: "k6_env \<Rightarrow> string \<Rightarrow> k6_options option \<Rightarrow> (js_error + json) option" where
  "runK6Test env url options =
     (case exec default_options (spawn env ''k6 version'') of
        None \<Rightarrow> None
      | Some (Inl verErr) \<Rightarrow>
          Some (Inl (Error ''k6 performance engine is not installed on the server environment.''))
      | Some (Inr verStdout) \<Rightarrow>
          (case exec run_options (spawn env (k6_cmd env url options)) of
             None \<Rightarrow> None
           | Some (Inl err) \<Rightarrow>
               Some (Inl (Error (''k6 execution failed: '' @ error_message err)))
           | Some (Inr out) \<Rightarrow> Some (read_result env)))"

section \<open>The browser probe adapter\<close>

text \<open>
  What the in-page function reads from the document: the \<open>alt\<close> text of every image,
  the title, whether a description \<open>meta\<close> element exists, and the protocol of the
  location.
\<close>

record dom =
  images :: "string list"
  title :: string
  has_meta_description :: bool
  protocol :: string

record audit_results =
  accessibility :: rat
  seo :: rat
  bestPractices :: rat

definition getScore :: "bool \<Rightarrow> rat" where
  "getScore condition = (if condition then 100 else 0)"

definition page_audit :: "dom \<Rightarrow> audit_results" where
  "page_audit d =
     (let imagesWithAlt = length (filter (\<lambda>alt. alt \<noteq> []) (images d));
          accessibilityScore =
            (if length (images d) > 0
             then (of_nat imagesWithAlt / of_nat (length (images d))) * 100
             else 100);
          hasTitle = (title d \<noteq> []);
          hasMetaDesc = has_meta_description d;
          seoScore = (getScore hasTitle + getScore hasMetaDesc) / 2;
          isHttps = (protocol d = ''https:'');
          bestPracticesScore = (getScore isHttps + 100) / 2
      in \<lparr>accessibility = accessibilityScore, seo = seoScore,
          bestPractices = bestPracticesScore\<rparr>)"

text \<open>
  The host of the browser probe: the \<open>EXECUTION_MODE\<close> variable, the successive values
  of \<open>Math.random()\<close>, the outcome of each awaited call of the automation engine
  (\<open>Inl\<close>: it throws), and the two readings of the clock around the navigation.
  \<open>close_in_handler\<close> is the \<open>browser.close()\<close> of the \<open>catch\<close> block.
\<close>

record browser_env =
  EXECUTION_MODE :: "string option"
  random :: "nat \<Rightarrow> rat"
  launch :: "js_error + unit"
  newContext :: "js_error + unit"
  newPage :: "js_error + unit"
  clock_before :: int
  goto :: "string \<Rightarrow> js_error + unit"
  clock_after :: int
  evaluate_timing :: "js_error + unit"
  evaluate_page :: "js_error + dom"
  close :: "js_error + unit"
  close_in_handler :: "js_error + unit"

definition mockResult :: "browser_env \<Rightarrow> js_object" where
  "mockResult env =
     [(''performance'', 75 + random env 0 * 20),
      (''accessibility'', 85 + random env 1 * 10),
      (''bestPractices'', 80 + random env 2 * 15),
      (''seo'', 90 + random env 3 * 10),
      (''interactivity'', 70 + random env 4 * 25)]"

definition finalResult :: "int \<Rightarrow> audit_results \<Rightarrow> js_object" where
  "finalResult loadTime auditResults =
     (let performanceScore = max 0 (100 - of_int loadTime / 100);
          interactivityScore = min 100 (performanceScore + 5)
      in [(''performance'', toFixed_num 0 performanceScore),
          (''accessibility'', toFixed_num 0 (accessibility auditResults)),
          (''bestPractices'', toFixed_num 0 (bestPractices auditResults)),
          (''seo'', toFixed_num 0 (seo auditResults)),
          (''interactivity'', toFixed_num 0 interactivityScore),
          (''loadTimeMs'', of_int loadTime)])"

text \<open>
  The \<open>try\<close> block. The first component tells whether \<open>browser\<close> was assigned, which
  the \<open>catch\<close> block tests; the second is the value returned (\<open>Inr\<close>) or the exception
  thrown (\<open>Inl\<close>).
\<close>

definition real_audit :: "browser_env \<Rightarrow> string \<Rightarrow> bool \<times> (js_error + js_object)" where
  "real_audit env url =
     (case launch env of
        Inl e \<Rightarrow> (False, Inl e)
      | Inr browser \<Rightarrow>
          (True,
           (case newContext env of
              Inl e \<Rightarrow> Inl e
            | Inr ctx \<Rightarrow>
                (case newPage env of
                   Inl e \<Rightarrow> Inl e
                 | Inr page \<Rightarrow>
                     (case goto env url of
                        Inl e \<Rightarrow> Inl e
                      | Inr u \<Rightarrow>
                          (let loadTime = clock_after env - clock_before env
                           in case evaluate_timing env of
                                Inl e \<Rightarrow> Inl e
                              | Inr performanceMetrics \<Rightarrow>
                                  (case evaluate_page env of
                                     Inl e \<Rightarrow> Inl e
                                   | Inr d \<Rightarrow>
                                       (case close env of
                                          Inl e \<Rightarrow> Inl e
                                        | Inr c \<Rightarrow>
                                            Inr (finalResult loadTime (page_audit d))))))))))"

text \<open>
  \<open>runPlaywrightAudit\<close>. Besides the outcome of the promise, the model returns how many
  times the body of the function was entered.
\<close>

function runPlaywrightAudit ::
  "browser_env \<Rightarrow> string \<Rightarrow> bool \<Rightarrow> nat \<times> (js_error + js_object)" where
  "runPlaywrightAudit env url forceSimulation =
     (if EXECUTION_MODE env = Some ''demo'' \<or> forceSimulation
      then (1, Inr (mockResult env))
      else
        (case real_audit env url of
           (browser, Inr r) \<Rightarrow> (1, Inr r)
         | (browser, Inl err) \<Rightarrow>
             (case (if browser then close_in_handler env else Inr ()) of
                Inl e \<Rightarrow> (1, Inl e)
              | Inr u \<Rightarrow>
                  (case runPlaywrightAudit env url True of
                     (n, outcome) \<Rightarrow> (Suc n, outcome)))))"
  by pat_completeness auto
termination
  by (relation "measure (\<lambda>(env, url, forceSimulation). if forceSimulation then 0 else 1)") auto

declare runPlaywrightAudit.simps [simp del]

section \<open>Properties named by the specification\<close>

text \<open>
  The specification lets a synthetic audit carry an \<open>isSimulated\<close> flag; an object is
  flagged when it has that field.
\<close>

definition flagged_simulated :: "js_object \<Rightarrow> bool" where
  "flagged_simulated obj = (field obj ''isSimulated'' \<noteq> None)"

text \<open>A score \<open>v\<close> is \<open>x\<close> rounded to an integer.\<close>

definition nearest_integer :: "rat \<Rightarrow> rat \<Rightarrow> bool" where
  "nearest_integer v x = (v \<in> \<int> \<and> \<bar>v - x\<bar> \<le> 1 / 2)"

section \<open>Scenarios\<close>

text \<open>The metrics of the first scenario of the specification.\<close>

definition scenario_1 :: metrics where
  "scenario_1 =
     \<lparr>latency = Some \<lparr>avg = Num 1000, p95 = Num 600\<rparr>, throughput = Num 50,
      failureRateUnderTest = Num (1 / 10), serverErrorRate = Num (2 / 100), vus = Num 200\<rparr>"

text \<open>Repository signals without a pipeline, and without a summary block.\<close>

definition repo_without_cicd :: repo where
  "repo_without_cicd =
     \<lparr>docker = \<lparr>present = True\<rparr>, cicd = \<lparr>present = False\<rparr>,
      kubernetes = \<lparr>present = True\<rparr>, hasStartScript = True, summary = None\<rparr>"

text \<open>The repository signals of the third scenario, with a summary block still to fill.\<close>

definition blank_summary :: summary_t where
  "blank_summary = \<lparr>devOpsScore = 0, productionReady = False, riskLevel = []\<rparr>"

definition scenario_3 :: repo where
  "scenario_3 =
     \<lparr>docker = \<lparr>present = True\<rparr>, cicd = \<lparr>present = False\<rparr>,
      kubernetes = \<lparr>present = True\<rparr>, hasStartScript = True,
      summary = Some blank_summary\<rparr>"

text \<open>A host that prints every number the same way, and a short prompt.\<close>

definition plain_host :: host where
  "plain_host =
     \<lparr>num_text = (\<lambda>x. ''#''), fixed2_text = (\<lambda>x. ''#.##''),
      stringify_metrics = (\<lambda>m. ''{}'')\<rparr>"

definition plain_prompt :: prompt where
  "plain_prompt = \<lparr>system_text = ''system'', format_text = ''format''\<rparr>"

text \<open>Collaborators whose three probes are all rejected, and whose narrative call throws.\<close>

definition failing_collaborators :: collaborators where
  "failing_collaborators =
     \<lparr>call_runK6Test =
        (\<lambda>url options.
           Inl (Error ''k6 performance engine is not installed on the server environment.'')),
      call_analyzeGithubRepo = (\<lambda>r. Inl (Error ''repository analysis failed'')),
      call_runPlaywrightAudit = (\<lambda>url. Inl (Error ''browser audit failed'')),
      parseK6Data = (\<lambda>raw. scenario_1),
      buildChartResponse = (\<lambda>m. JNull),
      getresponseopenrouter = (\<lambda>msgs. Inl (Error ''narrative failed''))\<rparr>"

text \<open>
  Collaborators whose load probe resolves only when it is called for the target
  \<open>http://a.test\<close> with 200 virtual users and the duration "5s", and is rejected for any
  other arguments.
\<close>

definition checking_collaborators :: collaborators where
  "checking_collaborators =
     failing_collaborators\<lparr>call_runK6Test :=
       (\<lambda>url options.
          if url = ''http://a.test''
             \<and> options = Some \<lparr>opt_vus = Some 200, opt_duration = Some ''5s''\<rparr>
          then Inr (JObj [])
          else Inl (Error ''unexpected arguments''))\<rparr>"

text \<open>A request with both targets, which also carries load parameters of its own.\<close>

definition full_request :: request where
  "full_request =
     \<lparr>testURL = Some ''http://a.test'', githubRepo = Some ''owner/repo'',
      other_fields = [(''vus'', ''1000''), (''duration'', ''10m'')]\<rparr>"

definition no_metrics_message :: string where
  "no_metrics_message =
     ''Load Test Failed: No runtime metrics were collected. The target may be unreachable.''"

text \<open>
  A host of the load probe on which every command exits at once with code 0, and two
  variants: the load run never exits, or exits with code 99.
\<close>

definition k6_version_ok :: process where
  "k6_version_ok = \<lparr>lifetime = Some 20, exit_code = 0, stdout_text = ''k6 v0.47.0''\<rparr>"

definition quiet_host :: k6_env where
  "quiet_host =
     \<lparr>tmpdir = ''/tmp'', cwd = ''/srv/app'', now = 1700000000000,
      spawn = (\<lambda>cmd. k6_version_ok),
      existsSync = (\<lambda>path. True),
      readFileSync = (\<lambda>path. Inr ''{}''),
      unlinkSync = (\<lambda>path. Inr ()),
      JSON_parse = (\<lambda>t. Inr (JObj []))\<rparr>"

definition hanging_host :: k6_env where
  "hanging_host =
     quiet_host\<lparr>spawn :=
       (\<lambda>cmd. if cmd = ''k6 version'' then k6_version_ok
              else \<lparr>lifetime = None, exit_code = 0, stdout_text = []\<rparr>)\<rparr>"

definition crashing_host :: k6_env where
  "crashing_host =
     quiet_host\<lparr>spawn :=
       (\<lambda>cmd. if cmd = ''k6 version'' then k6_version_ok
              else \<lparr>lifetime = Some 700, exit_code = 99, stdout_text = []\<rparr>)\<rparr>"

text \<open>The options the route passes to the load probe.\<close>

definition route_options :: "k6_options option" where
  "route_options = Some \<lparr>opt_vus = Some 200, opt_duration = Some ''5s''\<rparr>"

text \<open>
  A page with three images, one of them without \<open>alt\<close> text, a title, no description
  and no HTTPS; a browser that loads it in 1050 ms; the same browser when navigation
  fails; and when, besides, closing the browser in the handler fails.
\<close>

definition sample_dom :: dom where
  "sample_dom =
     \<lparr>images = [''logo'', [], ''team''], title = ''Home'',
      has_meta_description = False, protocol = ''http:''\<rparr>"

definition working_browser :: browser_env where
  "working_browser =
     \<lparr>EXECUTION_MODE = None, random = (\<lambda>i. 1 / 2),
      launch = Inr (), newContext = Inr (), newPage = Inr (),
      clock_before = 1700000000000, goto = (\<lambda>url. Inr ()), clock_after = 1700000001050,
      evaluate_timing = Inr (), evaluate_page = Inr sample_dom,
      close = Inr (), close_in_handler = Inr ()\<rparr>"

definition unreachable_browser :: browser_env where
  "unreachable_browser =
     working_browser\<lparr>goto := (\<lambda>url. Inl (Error ''page.goto: Timeout 30000ms exceeded.''))\<rparr>"

definition stuck_browser :: browser_env where
  "stuck_browser =
     unreachable_browser\<lparr>close_in_handler := Inl (Error ''browser.close: failed'')\<rparr>"

section \<open>Derived scores: properties\<close>

lemmas scoring_defs = businessMetrics_def from_metrics_def initial_businessMetrics_def
  push_if_def latency_avg_def latency_p95_def toFixed_num_def Let_def

text \<open>
  Claim C1. For the metrics of scenario 1 (average latency 1000, p95 600, throughput 50,
  failure rate 0.1, server error rate 0.02, 200 virtual users) the derived scores are
  conversion loss 7, ad-spend risk 3750, stability score 20 and collapse point 180,
  whatever the repository signals; the remediation list starts with the caching, the
  throughput and the auto-scale items in that order, and consists of exactly these three
  when there are no repository signals.
\<close>

theorem scenario_1_scores:
  "conversionLoss (businessMetrics (Some scenario_1) githubResult) = Num 7
   \<and> adSpendRisk (businessMetrics (Some scenario_1) githubResult) = Num 3750
   \<and> stabilityRiskScore (businessMetrics (Some scenario_1) githubResult) = Num 20
   \<and> collapsePoint (businessMetrics (Some scenario_1) githubResult) = Num 180
   \<and> take 3 (remediations (businessMetrics (Some scenario_1) githubResult))
       = [CdnEdgeCaching, RedisCaching, AutoScale]
   \<and> remediations (businessMetrics (Some scenario_1) None)
       = [CdnEdgeCaching, RedisCaching, AutoScale]"
  by (cases githubResult) (simp_all add: scoring_defs scenario_1_def floor_eq_iff)

text \<open>
  Claim C4, as stated, fails: without metrics but with repository signals that lack a
  pipeline, the remediation list is not empty. It holds the pipeline item.
\<close>

theorem no_metrics_counterexample:
  "businessMetrics None (Some repo_without_cicd) \<noteq> initial_businessMetrics
   \<and> remediations (businessMetrics None (Some repo_without_cicd)) = [CicdPipeline]"
  by (simp add: scoring_defs repo_without_cicd_def)

text \<open>
  Claim C4, amended. Without metrics the four numeric scores are zero; the remediation
  list is empty when there are no repository signals or when they show a pipeline, and
  holds the pipeline item alone when repository signals are present without one.
\<close>

theorem no_metrics_scores:
  "conversionLoss (businessMetrics None githubResult) = Num 0
   \<and> adSpendRisk (businessMetrics None githubResult) = Num 0
   \<and> stabilityRiskScore (businessMetrics None githubResult) = Num 0
   \<and> collapsePoint (businessMetrics None githubResult) = Num 0
   \<and> remediations (businessMetrics None githubResult)
       = (case githubResult of
            None \<Rightarrow> []
          | Some g \<Rightarrow> if present (cicd g) then [] else [CicdPipeline])"
  by (cases githubResult) (simp_all add: scoring_defs)

section \<open>Repository summary: properties\<close>

lemmas summary_defs = github_summary_def scored_summary_def set_riskLevel_def
  set_productionReady_def set_devOpsScore_def score_of_def

text \<open>
  Claim C8, as stated, fails: repository signals with Docker, Kubernetes and a start
  script and no pipeline, but without a summary block, are left as they are. No score,
  readiness flag or risk level is computed for them.
\<close>

theorem github_summary_counterexample:
  "summary repo_without_cicd = None
   \<and> github_summary (Some repo_without_cicd) = Some repo_without_cicd
   \<and> map_option summary (github_summary (Some repo_without_cicd)) = Some None"
  by (simp add: github_summary_def repo_without_cicd_def)

text \<open>
  Claim C8, amended. Repository signals without a summary block are left unchanged.
  When they carry a summary block, the route stores in it the score 30 for Docker + 30
  for a pipeline + 20 for Kubernetes + 20 for a start script, the readiness flag (start
  script and Docker and pipeline), and the risk level: low exactly from 70 up, medium
  exactly from 40 to below 70, high exactly below 40.
\<close>

theorem github_summary_scores:
  "github_summary (Some g)
     = (case summary g of
          None \<Rightarrow> Some g
        | Some s0 \<Rightarrow> Some (g\<lparr>summary := Some (scored_summary g s0)\<rparr>))
   \<and> devOpsScore (scored_summary g s) =
       30 * of_bool (present (docker g)) + 30 * of_bool (present (cicd g))
       + 20 * of_bool (present (kubernetes g)) + 20 * of_bool (hasStartScript g)
   \<and> productionReady (scored_summary g s) =
       (hasStartScript g \<and> present (docker g) \<and> present (cicd g))
   \<and> (riskLevel (scored_summary g s) = ''low''
        \<longleftrightarrow> devOpsScore (scored_summary g s) \<ge> 70)
   \<and> (riskLevel (scored_summary g s) = ''medium''
        \<longleftrightarrow> 40 \<le> devOpsScore (scored_summary g s)
            \<and> devOpsScore (scored_summary g s) < 70)
   \<and> (riskLevel (scored_summary g s) = ''high''
        \<longleftrightarrow> devOpsScore (scored_summary g s) < 40)"
  by (simp add: summary_defs split: option.splits)

text \<open>
  Scenario 3 (Docker, Kubernetes and a start script, no pipeline) with a summary block:
  score 70, not production ready, risk level low.
\<close>

theorem github_summary_scores_witness:
  "summary scenario_3 = Some blank_summary
   \<and> github_summary (Some scenario_3)
       = Some (scenario_3\<lparr>summary := Some (scored_summary scenario_3 blank_summary)\<rparr>)
   \<and> devOpsScore (scored_summary scenario_3 blank_summary) = 70
   \<and> productionReady (scored_summary scenario_3 blank_summary) = False
   \<and> riskLevel (scored_summary scenario_3 blank_summary) = ''low''"
  using github_summary_scores [of scenario_3 blank_summary]
  by (simp add: scenario_3_def)

section \<open>The orchestrating route: properties\<close>

text \<open>
  Claim C2. A request that supplies a target URL or a repository identifier gets a
  result whatever the settled outcomes of the three probes are: a rejected probe leaves
  its field of the result empty. When the load probe is rejected the metrics are absent
  and the narrative message is the fixed text saying that no runtime metrics were
  collected.
\<close>

theorem orchestrate_tolerates_failures:
  assumes "truthy (testURL req) \<or> truthy (githubRepo req)"
  shows "\<exists>r. orchestrate h pr w req = Inr r
           \<and> (truthy (testURL req)
                \<and> isl (call_runK6Test w (text_of (testURL req))
                          (Some \<lparr>opt_vus = Some 200, opt_duration = Some ''5s''\<rparr>))
               \<longrightarrow> res_metrics r = None \<and> message (res_ai r) = no_metrics_message)
           \<and> (truthy (githubRepo req)
                \<and> isl (call_analyzeGithubRepo w (text_of (githubRepo req)))
               \<longrightarrow> res_github r = None)
           \<and> (truthy (testURL req)
                \<and> isl (call_runPlaywrightAudit w (text_of (testURL req)))
               \<longrightarrow> res_browserMetrics r = None)"
  using assms
  by (auto simp: orchestrate_def fan_out_def load_probe_call_def catch_null_def Let_def
      runLiveAuditAI_def no_metrics_message_def github_summary_def isl_def
      split: prod.splits sum.splits)

text \<open>All three probes rejected: the result is there, with nothing but the message.\<close>

theorem orchestrate_tolerates_failures_witness:
  "(truthy (testURL full_request) \<or> truthy (githubRepo full_request))
   \<and> truthy (testURL full_request)
   \<and> isl (call_runK6Test failing_collaborators (text_of (testURL full_request))
            (Some \<lparr>opt_vus = Some 200, opt_duration = Some ''5s''\<rparr>))
   \<and> truthy (githubRepo full_request)
   \<and> isl (call_analyzeGithubRepo failing_collaborators (text_of (githubRepo full_request)))
   \<and> isl (call_runPlaywrightAudit failing_collaborators (text_of (testURL full_request)))
   \<and> (\<exists>r. orchestrate plain_host plain_prompt failing_collaborators full_request = Inr r
          \<and> res_metrics r = None \<and> res_github r = None \<and> res_browserMetrics r = None
          \<and> message (res_ai r) = no_metrics_message)"
  using orchestrate_tolerates_failures
    [of full_request plain_host plain_prompt failing_collaborators]
  by (auto simp: full_request_def failing_collaborators_def)

lemma show_nat_200: "show_nat 200 = ''200''"
  by (simp add: show_nat.simps digit_char_def)

text \<open>
  Claim C10. When the request has a target URL, the first promise the route awaits is
  the load probe called with that URL, 200 virtual users and the duration "5s", with
  its rejection turned into null; the metrics of the result are the ones parsed from
  what that call resolves with. The other fields of the request change neither the call
  nor the result of the route. The command line the adapter builds for that call
  carries 200 and "5s". The adapter itself takes the virtual users and the duration it
  is given, and falls back on 100 and "30s".
\<close>

theorem load_probe_fixed_parameters:
  assumes "truthy (testURL req)"
  shows
    \<open>fst (fan_out w (req\<lparr>other_fields := extra\<rparr>))
       = catch_null (call_runK6Test w (text_of (testURL req))
                       (Some \<lparr>opt_vus = Some 200, opt_duration = Some ''5s''\<rparr>))
     \<and> (\<exists>r. orchestrate h pr w (req\<lparr>other_fields := extra\<rparr>) = Inr r
            \<and> res_metrics r =
                (case catch_null (call_runK6Test w (text_of (testURL req))
                                    (Some \<lparr>opt_vus = Some 200, opt_duration = Some ''5s''\<rparr>)) of
                   None \<Rightarrow> None
                 | Some raw \<Rightarrow> if json_truthy raw then Some (parseK6Data w raw) else None))
     \<and> load_probe_call (req\<lparr>other_fields := extra\<rparr>)
         = Some (text_of (testURL req),
                 Some \<lparr>opt_vus = Some 200, opt_duration = Some ''5s''\<rparr>)
     \<and> orchestrate h pr w (req\<lparr>other_fields := extra\<rparr>) = orchestrate h pr w req
     \<and> k6_cmd env (text_of (testURL req))
           (Some \<lparr>opt_vus = Some 200, opt_duration = Some ''5s''\<rparr>)
         = ''k6 run --summary-export="'' @ resultFile env @ ''" --env TARGET_URL="''
             @ text_of (testURL req) @ ''" --env VUS="200" --env DURATION="5s" "''
             @ scriptPath env @ ''"''
     \<and> vus_of (Some \<lparr>opt_vus = Some 200, opt_duration = Some ''5s''\<rparr>) = 200
     \<and> duration_of (Some \<lparr>opt_vus = Some 200, opt_duration = Some ''5s''\<rparr>) = ''5s''
     \<and> vus_of (Some \<lparr>opt_vus = Some v, opt_duration = Some d\<rparr>) = v
     \<and> duration_of (Some \<lparr>opt_vus = Some v, opt_duration = Some d\<rparr>) = d
     \<and> vus_of None = 100 \<and> duration_of None = ''30s''
     \<and> vus_of (Some \<lparr>opt_vus = None, opt_duration = None\<rparr>) = 100
     \<and> duration_of (Some \<lparr>opt_vus = None, opt_duration = None\<rparr>) = ''30s''\<close>
proof -
  let ?call = "call_runK6Test w (text_of (testURL req))
                 (Some \<lparr>opt_vus = Some 200, opt_duration = Some ''5s''\<rparr>)"
  have pinned: "fst (fan_out w (req\<lparr>other_fields := extra\<rparr>)) = catch_null ?call"
    using assms by (simp add: fan_out_def load_probe_call_def)
  have route: "\<exists>r. orchestrate h pr w (req\<lparr>other_fields := extra\<rparr>) = Inr r
            \<and> res_metrics r =
                (case catch_null ?call of
                   None \<Rightarrow> None
                 | Some raw \<Rightarrow> if json_truthy raw then Some (parseK6Data w raw) else None)"
    using assms
    by (simp add: orchestrate_def fan_out_def load_probe_call_def Let_def split: prod.splits)
  have call: "load_probe_call (req\<lparr>other_fields := extra\<rparr>)
         = Some (text_of (testURL req),
                 Some \<lparr>opt_vus = Some 200, opt_duration = Some ''5s''\<rparr>)"
    using assms by (simp add: load_probe_call_def)
  have same: "orchestrate h pr w (req\<lparr>other_fields := extra\<rparr>) = orchestrate h pr w req"
    by (simp add: orchestrate_def fan_out_def load_probe_call_def)
  have cmd: \<open>k6_cmd env (text_of (testURL req))
           (Some \<lparr>opt_vus = Some 200, opt_duration = Some ''5s''\<rparr>)
         = ''k6 run --summary-export="'' @ resultFile env @ ''" --env TARGET_URL="''
             @ text_of (testURL req) @ ''" --env VUS="200" --env DURATION="5s" "''
             @ scriptPath env @ ''"''\<close>
    by (simp add: k6_cmd_def vus_of_def duration_of_def show_nat_200)
  have opts: "vus_of (Some \<lparr>opt_vus = Some 200, opt_duration = Some ''5s''\<rparr>) = 200
     \<and> duration_of (Some \<lparr>opt_vus = Some 200, opt_duration = Some ''5s''\<rparr>) = ''5s''
     \<and> vus_of (Some \<lparr>opt_vus = Some v, opt_duration = Some d\<rparr>) = v
     \<and> duration_of (Some \<lparr>opt_vus = Some v, opt_duration = Some d\<rparr>) = d
     \<and> vus_of None = 100 \<and> duration_of None = ''30s''
     \<and> vus_of (Some \<lparr>opt_vus = None, opt_duration = None\<rparr>) = 100
     \<and> duration_of (Some \<lparr>opt_vus = None, opt_duration = None\<rparr>) = ''30s''"
    by (simp add: vus_of_def duration_of_def)
  from pinned route call same cmd opts show ?thesis by blast
qed

text \<open>
  A request that carries \<open>vus\<close> and \<open>duration\<close> fields of its own, served by a load
  probe that accepts nothing but 200 and "5s": the probe resolves and its metrics reach
  the result.
\<close>

theorem load_probe_fixed_parameters_witness:
  "truthy (testURL full_request)
   \<and> other_fields full_request = [(''vus'', ''1000''), (''duration'', ''10m'')]
   \<and> fst (fan_out checking_collaborators full_request) = Some (JObj [])
   \<and> (\<exists>r. orchestrate plain_host plain_prompt checking_collaborators full_request = Inr r
          \<and> res_metrics r = Some scenario_1)
   \<and> load_probe_call full_request
       = Some (''http://a.test'', Some \<lparr>opt_vus = Some 200, opt_duration = Some ''5s''\<rparr>)"
  using load_probe_fixed_parameters
    [where req = full_request and w = checking_collaborators
       and extra = "other_fields full_request" and h = plain_host and pr = plain_prompt]
  by (simp add: full_request_def text_of_def checking_collaborators_def
      failing_collaborators_def catch_null_def)

section \<open>The textual context: properties\<close>

lemma metrics_block_append: "metrics_block h m c = c @ metrics_block h m []"
  by (simp add: metrics_block_def Let_def)

lemma repo_block_append: "repo_block g c = c @ repo_block g []"
  by (simp add: repo_block_def Let_def)

lemma browser_block_append: "browser_block h a c = c @ browser_block h a []"
  by (simp add: browser_block_def Let_def)

lemma trim_not_empty:
  assumes "c \<in> set s" and "\<not> is_space c"
  shows "trim s \<noteq> []"
proof -
  from assms have "c \<in> set (dropWhile is_space s)"
    by (induction s) auto
  then have "c \<in> set (rev (dropWhile is_space s))" by simp
  with assms(2) have "dropWhile is_space (rev (dropWhile is_space s)) \<noteq> []"
    by (auto simp: dropWhile_eq_Nil_conv)
  then show ?thesis by (simp add: trim_def)
qed

lemma build_context_not_blank: "trim (build_context h url rp ms gh pw) \<noteq> []"
proof -
  have "CHR ''T'' \<in> set (build_context h url rp ms gh pw)"
    by (simp add: build_context_def Let_def metrics_block_def repo_block_def
        browser_block_def split: option.splits)
  moreover have "\<not> is_space CHR ''T''" by (simp add: is_space_def)
  ultimately show ?thesis by (rule trim_not_empty)
qed

text \<open>
  Claim C5, as stated, fails: with no repository signals the context still has a
  repository part, the line saying that they are not available.
\<close>

theorem context_counterexample:
  "build_context plain_host (Some ''http://a.test'') None None None None
     = ''Target under test: http://a.test\<newline>\<newline>Repository Signals: Not available (no repository provided)\<newline>\<newline>''
   \<and> build_context plain_host (Some ''http://a.test'') None None None None
     \<noteq> ''Target under test: http://a.test\<newline>\<newline>''"
  by (simp add: build_context_def or_text_def no_repository_line_def)

text \<open>
  Claim C5, amended. The context is the target line followed by the runtime metrics
  part, the repository part and the browser audit part, in this order. The metrics part
  and the browser part are empty when their data is absent; the repository part is the
  repository block when the signals carry a summary, and the "not available" line
  otherwise. Each block starts with its heading. What the narrative step hands on is the
  first 6000 characters of the context, hence at most 6000 characters.
\<close>

theorem context_sections:
  "build_context h url rp ms gh pw =
     ''Target under test: '' @ or_text url rp @ ''\<newline>\<newline>''
     @ (case ms of None \<Rightarrow> [] | Some m \<Rightarrow> metrics_block h m [])
     @ (case gh of
          None \<Rightarrow> no_repository_line
        | Some g \<Rightarrow>
            (case summary g of None \<Rightarrow> no_repository_line | Some s \<Rightarrow> repo_block g []))
     @ (case pw of None \<Rightarrow> [] | Some a \<Rightarrow> browser_block h a [])
   \<and> prefix ''Runtime Metrics (Observed):\<newline>'' (metrics_block h m [])
   \<and> prefix ''Repository Signals (Static):\<newline>'' (repo_block g [])
   \<and> prefix ''Browser Experience Audit (External):\<newline>'' (browser_block h a [])
   \<and> safeContext h (build_context h url rp ms gh pw) m'
       = take 6000 (build_context h url rp ms gh pw)
   \<and> length (safeContext h (build_context h url rp ms gh pw) m') \<le> 6000"
proof -
  have 1: "build_context h url rp ms gh pw =
     ''Target under test: '' @ or_text url rp @ ''\<newline>\<newline>''
     @ (case ms of None \<Rightarrow> [] | Some m \<Rightarrow> metrics_block h m [])
     @ (case gh of
          None \<Rightarrow> no_repository_line
        | Some g \<Rightarrow>
            (case summary g of None \<Rightarrow> no_repository_line | Some s \<Rightarrow> repo_block g []))
     @ (case pw of None \<Rightarrow> [] | Some a \<Rightarrow> browser_block h a [])"
    by (simp add: build_context_def Let_def no_repository_line_def
        metrics_block_append [of _ _ "x # xs" for x xs]
        repo_block_append [of _ "x # xs" for x xs]
        browser_block_append [of _ _ "x # xs" for x xs]
        split: option.splits)
  have 2: "prefix ''Runtime Metrics (Observed):\<newline>'' (metrics_block h m [])"
    by (simp add: metrics_block_def Let_def)
  have 3: "prefix ''Repository Signals (Static):\<newline>'' (repo_block g [])"
    by (simp add: repo_block_def Let_def)
  have 4: "prefix ''Browser Experience Audit (External):\<newline>'' (browser_block h a [])"
    by (simp add: browser_block_def Let_def)
  have 5: "safeContext h (build_context h url rp ms gh pw) m'
       = take 6000 (build_context h url rp ms gh pw)"
    using build_context_not_blank [of h url rp ms gh pw] by (simp add: safeContext_def)
  have 6: "length (safeContext h (build_context h url rp ms gh pw) m') \<le> 6000"
    unfolding 5 by simp
  from 1 2 3 4 5 6 show ?thesis by blast
qed

section \<open>The load probe adapter: properties\<close>

lemma show_nat_now: "show_nat 1700000000000 = ''1700000000000''"
  by (simp add: show_nat.simps digit_char_def)

text \<open>
  Claim C6 on the code: two invocations on one host that read the same millisecond from
  the clock, one for each of two targets, direct the summary of the load generator to
  the same file.
\<close>

theorem resultFile_collision:
  \<open>resultFile quiet_host = ''/tmp/k6-result-1700000000000.json''
   \<and> k6_cmd quiet_host ''http://a.test'' route_options =
       ''k6 run --summary-export="/tmp/k6-result-1700000000000.json" --env TARGET_URL="http://a.test" --env VUS="200" --env DURATION="5s" "/srv/app/loadtester/k6/test.js"''
   \<and> k6_cmd quiet_host ''http://b.test'' route_options =
       ''k6 run --summary-export="/tmp/k6-result-1700000000000.json" --env TARGET_URL="http://b.test" --env VUS="200" --env DURATION="5s" "/srv/app/loadtester/k6/test.js"''\<close>
  by (simp add: k6_cmd_def resultFile_def scriptPath_def quiet_host_def route_options_def
      vus_of_def duration_of_def show_nat_200 show_nat_now)

lemma exec_run_options:
  "exec run_options p =
     (if length (stdout_text p) > 10485760
      then Some (Inl (Error ''stdout maxBuffer length exceeded''))
      else (case lifetime p of
              None \<Rightarrow> None
            | Some ms \<Rightarrow>
                if exit_code p \<noteq> 0 then Some (Inl (Error ''Command failed''))
                else Some (Inr (stdout_text p))))"
  by (simp add: exec_def time_limit_def run_options_def split: option.splits)

lemma runK6Test_after_check:
  assumes "exec default_options (spawn env ''k6 version'') = Some (Inr v)"
  shows "runK6Test env url options =
           (case exec run_options (spawn env (k6_cmd env url options)) of
              None \<Rightarrow> None
            | Some (Inl err) \<Rightarrow>
                Some (Inl (Error (''k6 execution failed: '' @ error_message err)))
            | Some (Inr out) \<Rightarrow> Some (read_result env))"
  using assms by (simp add: runK6Test_def)

text \<open>
  Claim C7, as stated, fails: when the load generator does not exit, the invocation
  with the duration "5s" never settles.
\<close>

theorem load_run_hangs:
  "runK6Test hanging_host ''http://a.test'' route_options = None"
  by (simp add: runK6Test_def exec_def time_limit_def default_options_def run_options_def
      hanging_host_def quiet_host_def k6_version_ok_def k6_cmd_def)

text \<open>
  Claim C7, amended. The load run is started with an output cap of 10 MiB and no time
  limit, whatever the requested duration. Once the engine check has passed, the
  invocation stays pending exactly when the process neither exits nor exceeds the cap;
  output beyond the cap, and an exit with a code other than zero, are turned into an
  execution failure.
\<close>

theorem load_run_settles:
  assumes "exec default_options (spawn env ''k6 version'') = Some (Inr v)"
  shows "time_limit run_options = None
         \<and> maxBuffer run_options = 10485760
         \<and> (runK6Test env url options = None
              \<longleftrightarrow> lifetime (spawn env (k6_cmd env url options)) = None
                  \<and> length (stdout_text (spawn env (k6_cmd env url options))) \<le> 10485760)
         \<and> (length (stdout_text (spawn env (k6_cmd env url options))) > 10485760
              \<longrightarrow> runK6Test env url options
                    = Some (Inl (Error
                        ''k6 execution failed: stdout maxBuffer length exceeded'')))
         \<and> (length (stdout_text (spawn env (k6_cmd env url options))) \<le> 10485760
              \<and> lifetime (spawn env (k6_cmd env url options)) \<noteq> None
              \<and> exit_code (spawn env (k6_cmd env url options)) \<noteq> 0
              \<longrightarrow> runK6Test env url options
                    = Some (Inl (Error ''k6 execution failed: Command failed'')))"
  unfolding runK6Test_after_check [OF assms] exec_run_options
  by (simp add: time_limit_def run_options_def split: option.splits)

text \<open>A load run that never exits stays pending; one that exits with code 99 fails.\<close>

theorem load_run_settles_witness:
  "exec default_options (spawn hanging_host ''k6 version'') = Some (Inr ''k6 v0.47.0'')
   \<and> exec default_options (spawn crashing_host ''k6 version'') = Some (Inr ''k6 v0.47.0'')
   \<and> lifetime (spawn hanging_host (k6_cmd hanging_host ''http://a.test'' route_options))
       = None
   \<and> runK6Test hanging_host ''http://a.test'' route_options = None
   \<and> lifetime (spawn crashing_host (k6_cmd crashing_host ''http://a.test'' route_options))
       = Some 700
   \<and> exit_code (spawn crashing_host (k6_cmd crashing_host ''http://a.test'' route_options))
       = 99
   \<and> runK6Test crashing_host ''http://a.test'' route_options
       = Some (Inl (Error ''k6 execution failed: Command failed''))"
  using load_run_settles [of hanging_host "''k6 v0.47.0''" "''http://a.test''" route_options]
    load_run_settles [of crashing_host "''k6 v0.47.0''" "''http://a.test''" route_options]
  by (simp add: exec_def time_limit_def default_options_def hanging_host_def
      crashing_host_def quiet_host_def k6_version_ok_def k6_cmd_def)

section \<open>The browser probe adapter: properties\<close>

lemma toFixed_num_0_int: "toFixed_num 0 x \<in> \<int>"
  by (simp add: toFixed_num_def)

lemma floor_bounds: "of_int \<lfloor>y\<rfloor> \<le> y \<and> y < of_int \<lfloor>y\<rfloor> + 1" for y :: rat
  using floor_correct [of y] by simp

lemma toFixed_num_0_near: "\<bar>toFixed_num 0 x - x\<bar> \<le> 1 / 2"
proof (cases "x < 0")
  case True
  have eq: "toFixed_num 0 x = - of_int \<lfloor>- x + 1 / 2\<rfloor>"
    using True by (simp add: toFixed_num_def)
  have "of_int \<lfloor>- x + 1 / 2\<rfloor> \<le> - x + 1 / 2"
    and "- x + 1 / 2 < of_int \<lfloor>- x + 1 / 2\<rfloor> + 1"
    using floor_bounds [of "- x + 1 / 2"] by blast+
  then show ?thesis unfolding eq by linarith
next
  case False
  have eq: "toFixed_num 0 x = of_int \<lfloor>x + 1 / 2\<rfloor>"
    using False by (simp add: toFixed_num_def)
  have "of_int \<lfloor>x + 1 / 2\<rfloor> \<le> x + 1 / 2"
    and "x + 1 / 2 < of_int \<lfloor>x + 1 / 2\<rfloor> + 1"
    using floor_bounds [of "x + 1 / 2"] by blast+
  then show ?thesis unfolding eq by linarith
qed

lemma toFixed_num_nearest: "nearest_integer (toFixed_num 0 x) x"
  unfolding nearest_integer_def using toFixed_num_0_int toFixed_num_0_near by blast

lemma toFixed_num_of_int: "toFixed_num 0 (of_int k) = of_int k"
proof -
  have "\<lfloor>(of_int k :: rat) + 1 / 2\<rfloor> = k" by (simp add: floor_eq_iff)
  moreover have "\<lfloor>- (of_int k :: rat) + 1 / 2\<rfloor> = - k" by (simp add: floor_eq_iff)
  ultimately show ?thesis by (simp add: toFixed_num_def)
qed

lemma toFixed_num_0_nonneg: "0 \<le> y \<Longrightarrow> toFixed_num 0 y = of_int \<lfloor>y + 1 / 2\<rfloor>"
  by (simp add: toFixed_num_def)

text \<open>Rounding the interactivity score, or deriving it from the rounded performance.\<close>

lemma toFixed_num_interactivity:
  assumes "0 \<le> x"
  shows "toFixed_num 0 (min 100 (x + 5)) = min 100 (toFixed_num 0 x + 5)"
proof -
  define n where "n = \<lfloor>x + 5 + 1 / 2\<rfloor>"
  have "x + 5 + 1 / 2 = (x + 1 / 2) + of_int 5" by simp
  then have shift: "n = \<lfloor>x + 1 / 2\<rfloor> + 5"
    unfolding n_def by (simp only: floor_add_int)
  have r: "toFixed_num 0 x + 5 = of_int n"
    unfolding toFixed_num_0_nonneg [OF assms] shift by simp
  have hundred: "toFixed_num 0 100 = 100"
    by (simp add: toFixed_num_def floor_eq_iff)
  show ?thesis
  proof (cases "100 \<le> x + 5")
    case True
    then have "100 \<le> n" unfolding n_def by (simp add: le_floor_iff)
    then have "(100::rat) \<le> of_int n" by linarith
    moreover from True have "min 100 (x + 5) = 100" by simp
    ultimately show ?thesis unfolding r by (simp add: hundred)
  next
    case False
    then have "n < 101" unfolding n_def by (simp add: floor_less_iff)
    then have "of_int n \<le> (100::rat)" by linarith
    moreover from False have "min 100 (x + 5) = x + 5" by simp
    moreover have "toFixed_num 0 (x + 5) = of_int n"
      unfolding n_def using assms by (simp add: toFixed_num_def add.commute add.left_commute)
    ultimately show ?thesis unfolding r by simp
  qed
qed

lemmas audit_defs = real_audit_def finalResult_def page_audit_def getScore_def mockResult_def
  field_def Let_def

text \<open>
  Claim C3, as stated, fails: when navigation fails, the probe returns the synthetic
  result after one recursive call, and that result has the five score fields and no
  field that marks it as simulated.
\<close>

theorem browser_probe_counterexample:
  "runPlaywrightAudit unreachable_browser ''http://a.test'' False
     = (2, Inr (mockResult unreachable_browser))
   \<and> \<not> flagged_simulated (mockResult unreachable_browser)
   \<and> map fst (mockResult unreachable_browser)
       = [''performance'', ''accessibility'', ''bestPractices'', ''seo'', ''interactivity'']"
  by (simp add: runPlaywrightAudit.simps audit_defs flagged_simulated_def
      unreachable_browser_def working_browser_def)

text \<open>
  The hypothesis of the amended claim is needed: when closing the browser in the
  handler throws, that exception is what the caller gets.
\<close>

lemma handler_close_failure_escapes:
  "runPlaywrightAudit stuck_browser ''http://a.test'' False
     = (1, Inl (Error ''browser.close: failed''))"
  by (simp add: runPlaywrightAudit.simps audit_defs stuck_browser_def
      unreachable_browser_def working_browser_def)

text \<open>
  Claim C3, amended. Provided that closing the browser inside the failure handler does
  not itself throw, the probe never returns a failure: in demo mode or when simulation
  is forced it returns the synthetic result at once; otherwise it returns the real
  audit, or, when any step of the real audit throws, it calls itself exactly once with
  simulation forced and returns the synthetic result. The forced call never recurses.
  The synthetic result has exactly the five score fields and carries no flag.
\<close>

theorem browser_probe_fallback:
  assumes "fst (real_audit env url) \<longrightarrow> close_in_handler env = Inr ()"
  shows "runPlaywrightAudit env url forceSimulation =
           (if EXECUTION_MODE env = Some ''demo'' \<or> forceSimulation
            then (1, Inr (mockResult env))
            else (case snd (real_audit env url) of
                    Inr r \<Rightarrow> (1, Inr r)
                  | Inl e \<Rightarrow> (2, Inr (mockResult env))))
         \<and> runPlaywrightAudit env url True = (1, Inr (mockResult env))
         \<and> map fst (mockResult env)
             = [''performance'', ''accessibility'', ''bestPractices'', ''seo'',
                ''interactivity'']
         \<and> \<not> flagged_simulated (mockResult env)"
proof -
  have t: "runPlaywrightAudit env url True = (1, Inr (mockResult env))"
    by (simp add: runPlaywrightAudit.simps)
  have "runPlaywrightAudit env url forceSimulation =
           (if EXECUTION_MODE env = Some ''demo'' \<or> forceSimulation
            then (1, Inr (mockResult env))
            else (case snd (real_audit env url) of
                    Inr r \<Rightarrow> (1, Inr r)
                  | Inl e \<Rightarrow> (2, Inr (mockResult env))))"
    using assms
    by (subst runPlaywrightAudit.simps) (auto simp: t split: prod.splits sum.splits)
  moreover have "map fst (mockResult env)
             = [''performance'', ''accessibility'', ''bestPractices'', ''seo'',
                ''interactivity'']"
    by (simp add: mockResult_def)
  moreover have "\<not> flagged_simulated (mockResult env)"
    by (simp add: flagged_simulated_def field_def mockResult_def)
  ultimately show ?thesis using t by blast
qed

text \<open>Navigation fails and the browser closes: one recursive call, the synthetic result.\<close>

theorem browser_probe_fallback_witness:
  "fst (real_audit unreachable_browser ''http://a.test'')
   \<and> close_in_handler unreachable_browser = Inr ()
   \<and> EXECUTION_MODE unreachable_browser \<noteq> Some ''demo''
   \<and> isl (snd (real_audit unreachable_browser ''http://a.test''))
   \<and> runPlaywrightAudit unreachable_browser ''http://a.test'' False
       = (2, Inr (mockResult unreachable_browser))"
  using browser_probe_fallback [of unreachable_browser "''http://a.test''" False]
  by (simp add: real_audit_def unreachable_browser_def working_browser_def)

text \<open>
  Claim C9. When no step of the real audit throws, the probe returns, without
  recursion, the five scores and the load time, where: performance is
  max(0, 100 - loadTime/100) rounded to an integer; accessibility is the share of images
  with a non-empty \<open>alt\<close> text times 100 (100 when there is no image), rounded;
  seo is the mean of the title check and the description check times 100, rounded;
  bestPractices is (100 if HTTPS, else 0, plus 100) / 2, an integer that is at least 50;
  interactivity is min(100, performance + 5) rounded, which is also min(100, P + 5) for
  the rounded performance P.
\<close>

theorem real_audit_scores:
  assumes "EXECUTION_MODE env \<noteq> Some ''demo''"
    and "launch env = Inr ()" and "newContext env = Inr ()" and "newPage env = Inr ()"
    and "goto env url = Inr ()" and "evaluate_timing env = Inr ()"
    and "evaluate_page env = Inr d" and "close env = Inr ()"
  shows "\<exists>P A B S I.
           runPlaywrightAudit env url False =
             (1, Inr [(''performance'', P), (''accessibility'', A), (''bestPractices'', B),
                      (''seo'', S), (''interactivity'', I),
                      (''loadTimeMs'', of_int (clock_after env - clock_before env))])
           \<and> nearest_integer P
                (max 0 (100 - of_int (clock_after env - clock_before env) / 100))
           \<and> nearest_integer A
                (if images d = [] then 100
                 else of_nat (length (filter (\<lambda>alt. alt \<noteq> []) (images d)))
                        / of_nat (length (images d)) * 100)
           \<and> nearest_integer S
                ((of_bool (title d \<noteq> []) + of_bool (has_meta_description d)) / 2 * 100)
           \<and> B = ((if protocol d = ''https:'' then 100 else 0) + 100) / 2
           \<and> B \<in> \<int> \<and> B \<ge> 50
           \<and> nearest_integer I
                (min 100
                   (max 0 (100 - of_int (clock_after env - clock_before env) / 100) + 5))
           \<and> I = min 100 (P + 5)"
proof -
  let ?lt = "clock_after env - clock_before env"
  let ?perf = "max 0 (100 - of_int ?lt / 100) :: rat"
  let ?a = "page_audit d"
  have bp50: "bestPractices ?a = of_int 50 \<or> bestPractices ?a = of_int 100"
    by (simp add: page_audit_def Let_def getScore_def)
  have run: "runPlaywrightAudit env url False =
      (1, Inr [(''performance'', toFixed_num 0 ?perf),
               (''accessibility'', toFixed_num 0 (accessibility ?a)),
               (''bestPractices'', bestPractices ?a),
               (''seo'', toFixed_num 0 (seo ?a)),
               (''interactivity'', toFixed_num 0 (min 100 (?perf + 5))),
               (''loadTimeMs'', of_int ?lt)])"
  proof -
    from bp50 have "toFixed_num 0 (bestPractices ?a) = bestPractices ?a"
      using toFixed_num_of_int by metis
    then show ?thesis
      using assms
      by (simp add: runPlaywrightAudit.simps real_audit_def finalResult_def Let_def)
  qed
  have p: "nearest_integer (toFixed_num 0 ?perf) ?perf"
    by (rule toFixed_num_nearest)
  have acc: "accessibility ?a =
               (if images d = [] then 100
                else of_nat (length (filter (\<lambda>alt. alt \<noteq> []) (images d)))
                       / of_nat (length (images d)) * 100)"
    by (simp add: page_audit_def Let_def)
  have a: "nearest_integer (toFixed_num 0 (accessibility ?a))
             (if images d = [] then 100
              else of_nat (length (filter (\<lambda>alt. alt \<noteq> []) (images d)))
                     / of_nat (length (images d)) * 100)"
    using toFixed_num_nearest [of "accessibility ?a"] by (simp only: acc)
  have seo: "seo ?a = (of_bool (title d \<noteq> []) + of_bool (has_meta_description d)) / 2 * 100"
    by (simp add: page_audit_def Let_def getScore_def)
  have s: "nearest_integer (toFixed_num 0 (seo ?a))
             ((of_bool (title d \<noteq> []) + of_bool (has_meta_description d)) / 2 * 100)"
    using toFixed_num_nearest [of "seo ?a"] by (simp only: seo)
  have b: "bestPractices ?a = ((if protocol d = ''https:'' then 100 else 0) + 100) / 2"
    by (simp add: page_audit_def Let_def getScore_def)
  have bint: "bestPractices ?a \<in> \<int>"
    using bp50 Ints_of_int by metis
  have bge: "bestPractices ?a \<ge> 50"
    by (simp add: b)
  have i: "nearest_integer (toFixed_num 0 (min 100 (?perf + 5))) (min 100 (?perf + 5))"
    by (rule toFixed_num_nearest)
  have ip: "toFixed_num 0 (min 100 (?perf + 5)) = min 100 (toFixed_num 0 ?perf + 5)"
    by (rule toFixed_num_interactivity) simp
  from run p a s b bint bge i ip show ?thesis by blast
qed

text \<open>
  A page loaded in 1050 ms over HTTP, with a title, no description, and an \<open>alt\<close> text
  on two images out of three: 90, 67, 50, 50 and 95.
\<close>

theorem real_audit_scores_witness:
  "EXECUTION_MODE working_browser \<noteq> Some ''demo''
   \<and> launch working_browser = Inr () \<and> newContext working_browser = Inr ()
   \<and> newPage working_browser = Inr () \<and> goto working_browser ''http://a.test'' = Inr ()
   \<and> evaluate_timing working_browser = Inr ()
   \<and> evaluate_page working_browser = Inr sample_dom \<and> close working_browser = Inr ()
   \<and> runPlaywrightAudit working_browser ''http://a.test'' False
       = (1, Inr [(''performance'', 90), (''accessibility'', 67), (''bestPractices'', 50),
                  (''seo'', 50), (''interactivity'', 95), (''loadTimeMs'', 1050)])"
  using real_audit_scores [of working_browser "''http://a.test''" sample_dom]
  by (simp add: runPlaywrightAudit.simps audit_defs toFixed_num_def floor_eq_iff
      working_browser_def sample_dom_def)

end
